theory Spec2Isabelle
  imports Main
begin

section \<open>JavaScript values\<close>

text \<open>
  The values the gateway handles: header values, JSON bodies, token payloads. A number is
  held as an integer (JSON numbers with a fraction are outside the model). An object is
  its list of properties; the first binding of a name is the property's value.
\<close>

datatype jsval =
    JUndefined
  | JNull
  | JBool bool
  | JNum int
  | JStr string
  | JArr "jsval list"
  | JObj "(string \<times> jsval) list"

text \<open>The test \<^verbatim>\<open>if (v)\<close>.\<close>

fun truthy :: "jsval \<Rightarrow> bool" where
  "truthy JUndefined = False"
| "truthy JNull = False"
| "truthy (JBool b) = b"
| "truthy (JNum n) = (n \<noteq> 0)"
| "truthy (JStr s) = (s \<noteq> [])"
| "truthy (JArr xs) = True"
| "truthy (JObj kvs) = True"

text \<open>\<^verbatim>\<open>typeof v === 'string'\<close>.\<close>

fun is_string :: "jsval \<Rightarrow> bool" where
  "is_string (JStr s) = True"
| "is_string v = False"

text \<open>\<^verbatim>\<open>a || b\<close>.\<close>

definition js_or :: "jsval \<Rightarrow> jsval \<Rightarrow> jsval" where
  "js_or a b = (if truthy a then a else b)"

text \<open>
  Reading a property \<^verbatim>\<open>v.name\<close>, for the names the gateway reads (\<^verbatim>\<open>id\<close>,
  \<^verbatim>\<open>roles\<close>, \<^verbatim>\<open>status\<close>, \<^verbatim>\<open>data\<close>, \<^verbatim>\<open>response\<close>): \<open>None\<close> is the TypeError
  of reading a property of \<^verbatim>\<open>undefined\<close> or \<^verbatim>\<open>null\<close>; strings, numbers, booleans
  and arrays have none of these properties.
\<close>

fun js_get :: "jsval \<Rightarrow> string \<Rightarrow> jsval option" where
  "js_get JUndefined k = None"
| "js_get JNull k = None"
| "js_get (JObj kvs) k = Some (case map_of kvs k of None \<Rightarrow> JUndefined | Some v \<Rightarrow> v)"
| "js_get v k = Some JUndefined"

text \<open>Optional chaining \<^verbatim>\<open>v?.name\<close>: \<^verbatim>\<open>undefined\<close> where \<^verbatim>\<open>v\<close> is nullish.\<close>

definition js_get_opt :: "jsval \<Rightarrow> string \<Rightarrow> jsval" where
  "js_get_opt v k = (case js_get v k of None \<Rightarrow> JUndefined | Some x \<Rightarrow> x)"

fun digit_char :: "nat \<Rightarrow> char" where
  "digit_char n = char_of (48 + n)"

fun show_nat :: "nat \<Rightarrow> string" where
  "show_nat n = (if n < 10 then [digit_char n] else show_nat (n div 10) @ [digit_char (n mod 10)])"

definition show_int :: "int \<Rightarrow> string" where
  "show_int i = (if i < 0 then CHR ''-'' # show_nat (nat (- i)) else show_nat (nat i))"

fun join_with :: "string \<Rightarrow> string list \<Rightarrow> string" where
  "join_with sep [] = []"
| "join_with sep [x] = x"
| "join_with sep (x # y # ys) = x @ sep @ join_with sep (y # ys)"

text \<open>
  String conversion, as \<^verbatim>\<open>Array.prototype.join\<close> applies it to the elements: inside an
  array \<^verbatim>\<open>undefined\<close> and \<^verbatim>\<open>null\<close> give the empty string, and a nested array is joined
  with commas.
\<close>

fun js_to_string :: "jsval \<Rightarrow> string" where
  "js_to_string JUndefined = ''undefined''"
| "js_to_string JNull = ''null''"
| "js_to_string (JBool b) = (if b then ''true'' else ''false'')"
| "js_to_string (JNum n) = show_int n"
| "js_to_string (JStr s) = s"
| "js_to_string (JArr xs) =
     join_with '','' (map (\<lambda>v. if v = JUndefined \<or> v = JNull then [] else js_to_string v) xs)"
| "js_to_string (JObj kvs) = ''[object Object]''"

definition join_elems :: "string \<Rightarrow> jsval list \<Rightarrow> string" where
  "join_elems sep xs =
     join_with sep (map (\<lambda>v. if v = JUndefined \<or> v = JNull then [] else js_to_string v) xs)"

text \<open>
  The call \<^verbatim>\<open>v.join(sep)\<close>: only an array has the method; on anything else the call is
  a TypeError (\<open>None\<close>).
\<close>

fun js_join :: "jsval \<Rightarrow> string \<Rightarrow> string option" where
  "js_join (JArr xs) sep = Some (join_elems sep xs)"
| "js_join v sep = None"

text \<open>\<^verbatim>\<open>s.startsWith(p)\<close> and \<^verbatim>\<open>s.split(' ')\<close> on strings.\<close>

definition startsWith :: "string \<Rightarrow> string \<Rightarrow> bool" where
  "startsWith s p = (take (length p) s = p)"

fun split_on :: "char \<Rightarrow> string \<Rightarrow> string list" where
  "split_on c [] = [[]]"
| "split_on c (x # xs) =
     (if x = c then [] # split_on c xs
      else (case split_on c xs of [] \<Rightarrow> [[x]] | w # ws \<Rightarrow> (x # w) # ws))"

text \<open>Indexing an array of strings: \<^verbatim>\<open>undefined\<close> out of range.\<close>

definition str_at :: "string list \<Rightarrow> nat \<Rightarrow> jsval" where
  "str_at xs i = (if i < length xs then JStr (xs ! i) else JUndefined)"

section \<open>Requests and responses\<close>

text \<open>
  A request as the rate limiter receives it, after the logger, \<^verbatim>\<open>cors\<close> and the JSON
  body parser have passed it on: the logger has assigned \<open>rid\<close> (\<^verbatim>\<open>req.id\<close>), the body
  is parsed. \<open>path\<close> holds the segments of the URL's path as the client wrote them,
  against which routes and mount points are matched; \<open>ip\<close> is the client key of the rate limiter. Header names are in
  lower case, as Node delivers them.
\<close>

record request =
  rid :: jsval
  http_method :: string
  originalUrl :: string
  path :: "string list"
  body :: jsval
  headers :: "string \<rightharpoonup> jsval"
  ip :: string

definition hdr :: "request \<Rightarrow> string \<Rightarrow> jsval" where
  "hdr req k = (case headers req k of None \<Rightarrow> JUndefined | Some v \<Rightarrow> v)"

text \<open>
  What the gateway answers: \<^verbatim>\<open>res.status(s).json(b)\<close>, the rate limiter's rejection
  (status 429), the framework's answer to a path no route handles (status 404), or no
  answer at all when a handler throws where nothing catches it.
\<close>

datatype response =
    Json nat jsval
  | RateLimited
  | NotFound
  | NoResponse

fun status_of :: "response \<Rightarrow> nat option" where
  "status_of (Json s b) = Some s"
| "status_of RateLimited = Some 429"
| "status_of NotFound = Some 404"
| "status_of NoResponse = None"

text \<open>The error envelope \<^verbatim>\<open>{ error: { code, message } }\<close>.\<close>

definition envelope :: "string \<Rightarrow> string \<Rightarrow> jsval" where
  "envelope code msg = JObj [(''error'', JObj [(''code'', JStr code), (''message'', JStr msg)])]"

text \<open>
  \<^verbatim>\<open>res.status(s).json(b)\<close>: sending with a status that is not a number from 100 to 999
  throws (\<open>None\<close>).
\<close>

fun res_status_json :: "jsval \<Rightarrow> jsval \<Rightarrow> response option" where
  "res_status_json (JNum n) b = (if 100 \<le> n \<and> n \<le> 999 then Some (Json (nat n) b) else None)"
| "res_status_json v b = None"

section \<open>The forwarder\<close>

definition USERS_SERVICE_URL :: string where
  "USERS_SERVICE_URL = ''http://service_users:8000''"

definition ORDERS_SERVICE_URL :: string where
  "ORDERS_SERVICE_URL = ''http://service_orders:8000''"

text \<open>The outbound call handed to axios.\<close>

record outbound =
  o_method :: string
  o_url :: string
  o_data :: jsval
  o_headers :: "string \<rightharpoonup> jsval"

definition requestHeaders :: "request \<Rightarrow> (string \<rightharpoonup> jsval)" where
  "requestHeaders req =
     (let h0 = [''x-request-id'' \<mapsto> rid req, ''Content-Type'' \<mapsto> JStr ''application/json''];
          h1 = (if truthy (hdr req ''x-user-id'') then h0(''x-user-id'' \<mapsto> hdr req ''x-user-id'') else h0);
          h2 = (if truthy (hdr req ''x-user-roles'') then h1(''x-user-roles'' \<mapsto> hdr req ''x-user-roles'') else h1)
      in h2)"

definition forwardRequest :: "request \<Rightarrow> string \<Rightarrow> string \<Rightarrow> outbound" where
  "forwardRequest req serviceUrl p =
     \<lparr>o_method = http_method req, o_url = serviceUrl @ p, o_data = body req,
      o_headers = requestHeaders req\<rparr>"

definition validateStatus :: "nat \<Rightarrow> bool" where
  "validateStatus status = (status < 500)"

text \<open>
  What comes back from the network: a response with status and data, or a network-level
  failure, after \<open>elapsed\<close> milliseconds.
\<close>

datatype axios_result = Response nat jsval | NetworkError

record reply =
  elapsed :: nat
  result :: axios_result

text \<open>A settled promise.\<close>

datatype settled = Resolved jsval | Rejected jsval

definition response_obj :: "nat \<Rightarrow> jsval \<Rightarrow> jsval" where
  "response_obj s d = JObj [(''status'', JNum (int s)), (''data'', d)]"

text \<open>
  How the promise of the axios call settles: it resolves with the response where
  \<open>validateStatus\<close> accepts the status, and rejects with an error carrying the response
  otherwise; a network failure rejects with an error that has no \<^verbatim>\<open>response\<close>.
\<close>

fun axios_settle :: "axios_result \<Rightarrow> settled" where
  "axios_settle (Response s d) =
     (if validateStatus s then Resolved (response_obj s d)
      else Rejected (JObj [(''response'', response_obj s d)]))"
| "axios_settle NetworkError = Rejected (JObj [(''code'', JStr ''ECONNREFUSED'')])"

section \<open>Authentication\<close>

text \<open>
  The errors of \<^verbatim>\<open>jwt.verify\<close>. The verification itself (signature and expiry against
  the secret) is a parameter \<open>verify\<close> of the model: it gives the error or the payload.
\<close>

datatype jwt_error = JsonWebTokenError | TokenExpiredError | NotBeforeError

definition jwt_verify :: "(string \<Rightarrow> jwt_error + jsval) \<Rightarrow> jsval \<Rightarrow> jwt_error + jsval" where
  "jwt_verify verify token = (case token of JStr t \<Rightarrow> verify t | _ \<Rightarrow> Inl JsonWebTokenError)"

text \<open>A middleware passes the request on, answers, or throws.\<close>

datatype step = Next request | Respond response | Throw

definition bearer_shaped :: "jsval \<Rightarrow> bool" where
  "bearer_shaped authHeader =
     (truthy authHeader \<and> is_string authHeader \<and> startsWith (js_to_string authHeader) ''Bearer '')"

definition bearer_token :: "jsval \<Rightarrow> jsval" where
  "bearer_token authHeader = str_at (split_on CHR '' '' (js_to_string authHeader)) 1"

definition attach_identity :: "request \<Rightarrow> jsval \<Rightarrow> step" where
  "attach_identity req user =
     (case js_get user ''id'' of
        None \<Rightarrow> Throw
      | Some uid \<Rightarrow>
          (case js_get user ''roles'' of
             None \<Rightarrow> Throw
           | Some roles \<Rightarrow>
               (case js_join roles '','' of
                  None \<Rightarrow> Throw
                | Some joined \<Rightarrow>
                    Next (req\<lparr>headers := (headers req)(''x-user-id'' \<mapsto> uid,
                                                        ''x-user-roles'' \<mapsto> JStr joined)\<rparr>))))"

definition authenticateJWT :: "(string \<Rightarrow> jwt_error + jsval) \<Rightarrow> request \<Rightarrow> step" where
  "authenticateJWT verify req =
     (let authHeader = hdr req ''authorization'' in
      if bearer_shaped authHeader then
        (case jwt_verify verify (bearer_token authHeader) of
           Inl err \<Rightarrow> Respond (Json 403 (envelope ''FORBIDDEN'' ''Invalid or expired token''))
         | Inr user \<Rightarrow> attach_identity req user)
      else Respond (Json 401 (envelope ''UNAUTHORIZED''
                                ''Authorization header with Bearer token is missing'')))"

section \<open>The rate limiter\<close>

definition windowMs :: nat where
  "windowMs = 15 * 60 * 1000"

definition max_requests :: nat where
  "max_requests = 100"

text \<open>
  Modelled from the spec: the store of the rate limiter, which the gateway takes from the
  package \<^verbatim>\<open>express-rate-limit\<close> (not under src/). Section 3: one bucket per client
  key, holding the instant its window started and a count.
\<close>

record bucket =
  window_start :: nat
  count :: nat

text \<open>
  Modelled from the spec: the admission rule of the rate limiter, of the same package; the
  source gives only \<open>windowMs\<close> and \<open>max_requests\<close>. Section 4.2: a window of duration W
  starts at the first request for a key and accepts up to N requests; the next request
  within the same window is rejected; a request observed after the window has elapsed
  starts a fresh window with count 1. Section 3: the bucket is created on the first
  request, and the count never exceeds the limit. Section 6: a rejected request is
  answered with status 429.
\<close>

definition admit :: "(string \<rightharpoonup> bucket) \<Rightarrow> string \<Rightarrow> nat \<Rightarrow> bool \<times> (string \<rightharpoonup> bucket)" where
  "admit bs clientKey now =
     (case bs clientKey of
        None \<Rightarrow> (True, bs(clientKey \<mapsto> \<lparr>window_start = now, count = 1\<rparr>))
      | Some b \<Rightarrow>
          if window_start b + windowMs \<le> now
          then (True, bs(clientKey \<mapsto> \<lparr>window_start = now, count = 1\<rparr>))
          else if count b < max_requests
          then (True, bs(clientKey \<mapsto> b\<lparr>count := count b + 1\<rparr>))
          else (False, bs))"

text \<open>The same key asking at each of the given instants, in turn.\<close>

fun admit_all :: "(string \<rightharpoonup> bucket) \<Rightarrow> string \<Rightarrow> nat list \<Rightarrow> bool list \<times> (string \<rightharpoonup> bucket)" where
  "admit_all bs clientKey [] = ([], bs)"
| "admit_all bs clientKey (t # ts) =
     (case admit bs clientKey t of
        (ok, bs') \<Rightarrow> (case admit_all bs' clientKey ts of (oks, bs'') \<Rightarrow> (ok # oks, bs'')))"

section \<open>The circuit breaker\<close>

record options =
  timeout :: nat
  errorThresholdPercentage :: nat
  resetTimeout :: nat

definition circuitOptions :: options where
  "circuitOptions = \<lparr>timeout = 5000, errorThresholdPercentage = 50, resetTimeout = 30000\<rparr>"

text \<open>
  Modelled from the spec: the state of a breaker, which the gateway takes from the package
  \<^verbatim>\<open>opossum\<close> (not under src/). Section 3: the state, the failure count and the total
  count of the sample, the instant of the last transition.
\<close>

datatype bstate = CLOSED | OPEN | HALF_OPEN

record breaker =
  state :: bstate
  failures :: nat
  total_count :: nat
  last_transition :: nat

text \<open>The value of the fallback registered by \<^verbatim>\<open>createCircuitBreaker\<close>.\<close>

definition fallback_value :: jsval where
  "fallback_value =
     JObj [(''error'', JStr ''Service temporarily unavailable''),
           (''code'', JStr ''SERVICE_UNAVAILABLE'')]"

text \<open>
  Modelled from the spec: what \<^verbatim>\<open>new CircuitBreaker\<close> gives, a CLOSED breaker that has
  seen no call (the class is the package's).
\<close>

definition createCircuitBreaker :: breaker where
  "createCircuitBreaker = \<lparr>state = CLOSED, failures = 0, total_count = 0, last_transition = 0\<rparr>"

text \<open>
  The state machine of the breaker is the package's too (\<^verbatim>\<open>opossum\<close>, not under src/):
  the source gives only \<open>circuitOptions\<close> and the fallback, and each definition below is
  modelled from the spec. The minimum sample size is set neither by the source nor by
  the spec: it is the parameter \<open>min_sample\<close>. The spec does not say how calls leave the
  rolling sample: the counters here only grow until they are reset.
\<close>

text \<open>
  Modelled from the spec: the state a call finds (the package's evaluation). Section 3:
  the state is OPEN only while less than the open-duration has passed since the
  transition; after that it is treated as HALF_OPEN on the next evaluation.
\<close>

definition effective_state :: "options \<Rightarrow> breaker \<Rightarrow> nat \<Rightarrow> bstate" where
  "effective_state opts b now =
     (if state b = OPEN \<and> last_transition b + resetTimeout opts \<le> now then HALF_OPEN
      else state b)"

text \<open>
  Modelled from the spec: the package's call-timeout. Section 4.3: a call that exceeds the
  call-timeout counts as a failure.
\<close>

definition timed_out :: "options \<Rightarrow> reply \<Rightarrow> bool" where
  "timed_out opts r = (timeout opts < elapsed r)"

text \<open>
  Modelled from the spec: how the package's call settles. The timeout rejects; otherwise
  the promise of the forwarder decides.
\<close>

definition call_settle :: "options \<Rightarrow> reply \<Rightarrow> settled" where
  "call_settle opts r =
     (if timed_out opts r then Rejected (JObj [(''code'', JStr ''ETIMEDOUT'')])
      else axios_settle (result r))"

fun is_rejected :: "settled \<Rightarrow> bool" where
  "is_rejected (Rejected e) = True"
| "is_rejected (Resolved v) = False"

text \<open>
  Modelled from the spec: what the package counts as a failure. Section 4.3: a call that
  the forwarder signals as failed, or that exceeds the call-timeout.
\<close>

definition is_failure :: "options \<Rightarrow> reply \<Rightarrow> bool" where
  "is_failure opts r = is_rejected (call_settle opts r)"

text \<open>
  Modelled from the spec: the package's counters. Section 3: the failure count and the
  total count of the sample.
\<close>

definition record_outcome :: "bool \<Rightarrow> breaker \<Rightarrow> breaker" where
  "record_outcome failed b =
     b\<lparr>failures := (if failed then failures b + 1 else failures b), total_count := total_count b + 1\<rparr>"

text \<open>
  Modelled from the spec: the package's opening condition. Section 4.3: the fraction that
  failed meets or exceeds the error-threshold fraction, evaluated only once a minimum
  sample size has been observed.
\<close>

definition threshold_met :: "options \<Rightarrow> nat \<Rightarrow> breaker \<Rightarrow> bool" where
  "threshold_met opts min_sample b =
     (min_sample \<le> total_count b \<and> errorThresholdPercentage opts * total_count b \<le> 100 * failures b)"

text \<open>
  Modelled from the spec: the package's transitions on the outcome of a call. Section 4.3
  and section 8: a successful trial call closes the breaker and resets the counters, a
  failed one opens it again from now; in CLOSED the breaker opens after a failure that
  makes the opening condition hold (a success never opens it).
\<close>

definition on_outcome :: "options \<Rightarrow> nat \<Rightarrow> nat \<Rightarrow> bstate \<Rightarrow> bool \<Rightarrow> breaker \<Rightarrow> breaker" where
  "on_outcome opts min_sample now st failed b =
     (let b1 = record_outcome failed b in
      if st = HALF_OPEN then
        (if failed then b1\<lparr>state := OPEN, last_transition := now\<rparr>
         else b1\<lparr>state := CLOSED, failures := 0, total_count := 0, last_transition := now\<rparr>)
      else if failed \<and> threshold_met opts min_sample b1
      then b1\<lparr>state := OPEN, last_transition := now\<rparr>
      else b1)"

text \<open>
  Modelled from the spec: what the package's \<^verbatim>\<open>fire\<close> gives for a call that was made.
  The fallback is registered for the breaker as a whole (lines 44 to 47): it is the
  result of every call that does not succeed, so \<^verbatim>\<open>fire\<close> resolves with it when the call
  fails, and the client is answered a synthesized 503 (section 7).
\<close>

definition fire_result :: "options \<Rightarrow> reply \<Rightarrow> settled" where
  "fire_result opts r =
     (if is_failure opts r then Resolved fallback_value else call_settle opts r)"

text \<open>
  Modelled from the spec: the package's \<^verbatim>\<open>fire\<close>. Section 4.3: while the breaker is
  OPEN the call is never attempted and the fallback is the result; otherwise the call is
  made and its outcome reported to the breaker. The third component lists the outbound
  calls made.
\<close>

definition fire ::
  "options \<Rightarrow> nat \<Rightarrow> (outbound \<Rightarrow> reply) \<Rightarrow> nat \<Rightarrow> breaker \<Rightarrow> outbound
     \<Rightarrow> settled \<times> breaker \<times> outbound list" where
  "fire opts min_sample net now b ob =
     (let st = effective_state opts b now in
      if st = OPEN then (Resolved fallback_value, b, [])
      else (let r = net ob
            in (fire_result opts r, on_outcome opts min_sample now st (is_failure opts r) b, [ob])))"

text \<open>The breaker after a run of calls, each with its instant and the network's reply.\<close>

fun fire_all :: "options \<Rightarrow> nat \<Rightarrow> breaker \<Rightarrow> (nat \<times> reply) list \<Rightarrow> outbound \<Rightarrow> breaker" where
  "fire_all opts min_sample b [] ob = b"
| "fire_all opts min_sample b ((now, r) # rs) ob =
     fire_all opts min_sample (fst (snd (fire opts min_sample (\<lambda>x. r) now b ob))) rs ob"

text \<open>
  A reply that completes within the call-timeout with a client-range status.
\<close>

definition completed_4xx :: "reply \<Rightarrow> bool" where
  "completed_4xx r =
     (\<not> timed_out circuitOptions r \<and>
      (case result r of Response s d \<Rightarrow> 400 \<le> s \<and> s \<le> 499 | NetworkError \<Rightarrow> False))"

section \<open>Routing\<close>

text \<open>An error raised by the runtime; it has no \<^verbatim>\<open>response\<close> property.\<close>

definition thrown_error :: jsval where
  "thrown_error = JObj [(''name'', JStr ''TypeError'')]"

definition unavailable :: jsval where
  "unavailable = envelope ''SERVICE_UNAVAILABLE'' ''Service is unavailable''"

text \<open>The \<^verbatim>\<open>then\<close> branch of \<^verbatim>\<open>handleServiceRequest\<close>; \<open>None\<close> when it throws.\<close>

definition on_resolved :: "jsval \<Rightarrow> response option" where
  "on_resolved serviceResponse =
     (case js_get serviceResponse ''status'' of
        None \<Rightarrow> None
      | Some st \<Rightarrow>
          (case js_get serviceResponse ''data'' of
             None \<Rightarrow> None
           | Some d \<Rightarrow> res_status_json st d))"

text \<open>The \<^verbatim>\<open>catch\<close> branch; an exception in it is caught by nothing.\<close>

definition on_rejected :: "jsval \<Rightarrow> response" where
  "on_rejected err =
     (case js_get err ''response'' of
        None \<Rightarrow> NoResponse
      | Some resp \<Rightarrow>
          (let st = js_or (js_get_opt resp ''status'') (JNum 503);
               d = js_or (js_get_opt resp ''data'') unavailable
           in case res_status_json st d of None \<Rightarrow> NoResponse | Some r \<Rightarrow> r))"

text \<open>
  The answer of \<^verbatim>\<open>handleServiceRequest\<close> to the settled promise of \<^verbatim>\<open>circuit.fire\<close>: what
  the \<^verbatim>\<open>then\<close> branch throws is caught by the \<^verbatim>\<open>catch\<close> branch.
\<close>

definition respond :: "settled \<Rightarrow> response" where
  "respond s =
     (case s of
        Resolved v \<Rightarrow> (case on_resolved v of Some r \<Rightarrow> r | None \<Rightarrow> on_rejected thrown_error)
      | Rejected e \<Rightarrow> on_rejected e)"

text \<open>
  The parameters of a run: the token verification, the network, the breaker's minimum
  sample size, and how a breaker's status object prints in \<^verbatim>\<open>/health\<close>.
\<close>

record env =
  e_verify :: "string \<Rightarrow> jwt_error + jsval"
  e_net :: "outbound \<Rightarrow> reply"
  e_min_sample :: nat
  e_status_json :: "breaker \<Rightarrow> jsval"

definition handleServiceRequest ::
  "env \<Rightarrow> nat \<Rightarrow> breaker \<Rightarrow> string \<Rightarrow> request \<Rightarrow> response \<times> breaker \<times> outbound list" where
  "handleServiceRequest ev now circuit serviceUrl req =
     (case fire circuitOptions (e_min_sample ev) (e_net ev) now circuit
             (forwardRequest req serviceUrl (originalUrl req)) of
        (s, circuit', calls) \<Rightarrow> (respond s, circuit', calls))"

record gateway =
  buckets :: "string \<rightharpoonup> bucket"
  usersCircuit :: breaker
  ordersCircuit :: breaker

text \<open>
  The framework compares paths without regard to the case of the letters A to Z (routing
  is case-insensitive unless configured otherwise, and the source configures nothing).
\<close>

definition lower_char :: "char \<Rightarrow> char" where
  "lower_char c =
     (case map_of (zip ''ABCDEFGHIJKLMNOPQRSTUVWXYZ'' ''abcdefghijklmnopqrstuvwxyz'') c of
        None \<Rightarrow> c
      | Some d \<Rightarrow> d)"

definition lower_str :: "string \<Rightarrow> string" where
  "lower_str s = map lower_char s"

text \<open>A route (\<^verbatim>\<open>app.get\<close>) matches the paths that have its segments.\<close>

definition route_is :: "string list \<Rightarrow> string list \<Rightarrow> bool" where
  "route_is pat p = (map lower_str p = map lower_str pat)"

text \<open>A mount point (\<^verbatim>\<open>use\<close>) matches the paths that start with its segments.\<close>

definition mounted :: "string list \<Rightarrow> string list \<Rightarrow> bool" where
  "mounted prefix p = (map lower_str (take (length prefix) p) = map lower_str prefix)"

text \<open>The error-handling middleware.\<close>

definition errorHandler :: response where
  "errorHandler = Json 500 (envelope ''INTERNAL_SERVER_ERROR'' ''An unexpected error occurred.'')"

text \<open>\<^verbatim>\<open>handleServiceRequest(usersCircuit)\<close> and \<^verbatim>\<open>handleServiceRequest(ordersCircuit)\<close>.\<close>

definition via_users :: "env \<Rightarrow> nat \<Rightarrow> gateway \<Rightarrow> request \<Rightarrow> response \<times> gateway \<times> outbound list" where
  "via_users ev now gw req =
     (case handleServiceRequest ev now (usersCircuit gw) USERS_SERVICE_URL req of
        (r, c, calls) \<Rightarrow> (r, gw\<lparr>usersCircuit := c\<rparr>, calls))"

definition via_orders :: "env \<Rightarrow> nat \<Rightarrow> gateway \<Rightarrow> request \<Rightarrow> response \<times> gateway \<times> outbound list" where
  "via_orders ev now gw req =
     (case handleServiceRequest ev now (ordersCircuit gw) ORDERS_SERVICE_URL req of
        (r, c, calls) \<Rightarrow> (r, gw\<lparr>ordersCircuit := c\<rparr>, calls))"

text \<open>
  The router mounted under \<^verbatim>\<open>/v1\<close>: \<open>authenticateJWT\<close> first, then the two services.
  What a middleware throws goes to the error-handling middleware.
\<close>

definition protectedRouter :: "env \<Rightarrow> nat \<Rightarrow> gateway \<Rightarrow> request \<Rightarrow> response \<times> gateway \<times> outbound list" where
  "protectedRouter ev now gw req =
     (case authenticateJWT (e_verify ev) req of
        Respond r \<Rightarrow> (r, gw, [])
      | Throw \<Rightarrow> (errorHandler, gw, [])
      | Next req' \<Rightarrow>
          if mounted [''v1'', ''users''] (path req') then via_users ev now gw req'
          else if mounted [''v1'', ''orders''] (path req') then via_orders ev now gw req'
          else (NotFound, gw, []))"

text \<open>The routes, in the order the source registers them (after the rate limiter).\<close>

definition routes :: "env \<Rightarrow> nat \<Rightarrow> gateway \<Rightarrow> request \<Rightarrow> response \<times> gateway \<times> outbound list" where
  "routes ev now gw req =
     (if http_method req \<in> {''GET'', ''HEAD''} \<and> route_is [''status''] (path req)
      then (Json 200 (JObj [(''status'', JStr ''API Gateway is running'')]), gw, [])
      else if http_method req \<in> {''GET'', ''HEAD''} \<and> route_is [''health''] (path req)
      then (Json 200 (JObj [(''status'', JStr ''API Gateway is running''),
                            (''circuits'', JObj [(''users'', e_status_json ev (usersCircuit gw)),
                                                 (''orders'', e_status_json ev (ordersCircuit gw))])]),
            gw, [])
      else if mounted [''v1'', ''auth''] (path req) then via_users ev now gw req
      else if mounted [''v1''] (path req) then protectedRouter ev now gw req
      else (NotFound, gw, []))"

text \<open>The whole gateway: the rate limiter is the first stage, for every request.\<close>

definition handle :: "env \<Rightarrow> nat \<Rightarrow> gateway \<Rightarrow> request \<Rightarrow> response \<times> gateway \<times> outbound list" where
  "handle ev now gw req =
     (case admit (buckets gw) (ip req) now of
        (False, bs) \<Rightarrow> (RateLimited, gw\<lparr>buckets := bs\<rparr>, [])
      | (True, bs) \<Rightarrow> routes ev now (gw\<lparr>buckets := bs\<rparr>) req)"

definition protected_path :: "request \<Rightarrow> bool" where
  "protected_path req = (mounted [''v1''] (path req) \<and> \<not> mounted [''v1'', ''auth''] (path req))"

section \<open>Example inputs\<close>

text \<open>Concrete requests, verifiers and states, used where a theorem is run on an input.\<close>

definition ok_reply :: reply where
  "ok_reply = \<lparr>elapsed = 10, result = Response 200 (JObj [])\<rparr>"

definition not_found_reply :: reply where
  "not_found_reply = \<lparr>elapsed = 20, result = Response 404 (JObj [])\<rparr>"

definition failing_reply :: reply where
  "failing_reply = \<lparr>elapsed = 15, result = Response 500 (JObj [])\<rparr>"

definition ok_net :: "outbound \<Rightarrow> reply" where
  "ok_net ob = ok_reply"

definition failing_net :: "outbound \<Rightarrow> reply" where
  "failing_net ob = failing_reply"

definition fresh_gateway :: gateway where
  "fresh_gateway =
     \<lparr>buckets = Map.empty, usersCircuit = createCircuitBreaker,
      ordersCircuit = createCircuitBreaker\<rparr>"

text \<open>A store in which two clients have used up their window.\<close>

definition limited_gateway :: gateway where
  "limited_gateway =
     \<lparr>buckets = [''10.0.0.1'' \<mapsto> \<lparr>window_start = 0, count = 100\<rparr>,
                 ''10.0.0.3'' \<mapsto> \<lparr>window_start = 0, count = 100\<rparr>],
      usersCircuit = createCircuitBreaker, ordersCircuit = createCircuitBreaker\<rparr>"

definition bearer_req :: request where
  "bearer_req =
     \<lparr>rid = JStr ''r1'', http_method = ''GET'', originalUrl = ''/v1/users/profile'',
      path = [''v1'', ''users'', ''profile''], body = JUndefined,
      headers = [''authorization'' \<mapsto> JStr ''Bearer tok''], ip = ''10.0.0.1''\<rparr>"

definition login_req :: request where
  "login_req =
     \<lparr>rid = JStr ''r2'', http_method = ''POST'', originalUrl = ''/v1/auth/login'',
      path = [''v1'', ''auth'', ''login''], body = JObj [],
      headers = [''x-user-id'' \<mapsto> JStr ''admin-1'', ''x-user-roles'' \<mapsto> JStr ''''],
      ip = ''10.0.0.2''\<rparr>"

definition noauth_req :: request where
  "noauth_req =
     \<lparr>rid = JStr ''r3'', http_method = ''GET'', originalUrl = ''/v1/orders'',
      path = [''v1'', ''orders''], body = JUndefined, headers = Map.empty, ip = ''10.0.0.3''\<rparr>"

text \<open>A token with an identity and no role, one with two roles, one without the claim.\<close>

definition empty_roles_verify :: "string \<Rightarrow> jwt_error + jsval" where
  "empty_roles_verify t = Inr (JObj [(''id'', JStr ''u1''), (''roles'', JArr [])])"

definition two_roles_verify :: "string \<Rightarrow> jwt_error + jsval" where
  "two_roles_verify t =
     Inr (JObj [(''id'', JStr ''u1''), (''roles'', JArr [JStr ''user'', JStr ''admin''])])"

definition no_roles_verify :: "string \<Rightarrow> jwt_error + jsval" where
  "no_roles_verify t = Inr (JObj [(''id'', JStr ''u1'')])"

definition reject_all_verify :: "string \<Rightarrow> jwt_error + jsval" where
  "reject_all_verify t = Inl JsonWebTokenError"

definition empty_roles_env :: env where
  "empty_roles_env =
     \<lparr>e_verify = empty_roles_verify, e_net = (\<lambda>ob. ok_reply), e_min_sample = 0,
      e_status_json = (\<lambda>b. JNull)\<rparr>"

definition no_roles_env :: env where
  "no_roles_env =
     \<lparr>e_verify = no_roles_verify, e_net = (\<lambda>ob. ok_reply), e_min_sample = 0,
      e_status_json = (\<lambda>b. JNull)\<rparr>"

definition strict_env :: env where
  "strict_env =
     \<lparr>e_verify = reject_all_verify, e_net = (\<lambda>ob. ok_reply), e_min_sample = 0,
      e_status_json = (\<lambda>b. JNull)\<rparr>"

text \<open>A failing backend, and no minimum sample size.\<close>

definition failing_env :: env where
  "failing_env =
     \<lparr>e_verify = reject_all_verify, e_net = failing_net, e_min_sample = 0,
      e_status_json = (\<lambda>b. JNull)\<rparr>"

definition authed_req :: request where
  "authed_req =
     bearer_req\<lparr>headers := (headers bearer_req)(''x-user-id'' \<mapsto> JStr ''u1'',
                                                  ''x-user-roles'' \<mapsto> JStr ''user,admin'')\<rparr>"

definition open_breaker :: breaker where
  "open_breaker = \<lparr>state = OPEN, failures = 3, total_count = 4, last_transition = 1000\<rparr>"

text \<open>The values of one header on the outbound calls of a run.\<close>

definition forwarded_header :: "response \<times> gateway \<times> outbound list \<Rightarrow> string \<Rightarrow> jsval option list" where
  "forwarded_header out k = map (\<lambda>ob. o_headers ob k) (snd (snd out))"

section \<open>Basic facts\<close>

lemma lower_segments:
  "lower_str ''v1'' = ''v1''" "lower_str ''auth'' = ''auth''" "lower_str ''users'' = ''users''"
  "lower_str ''orders'' = ''orders''" "lower_str ''status'' = ''status''"
  "lower_str ''health'' = ''health''"
  by (simp_all add: lower_str_def lower_char_def)

text \<open>The case of the letters in a path does not matter to the routing.\<close>

lemma mounted_ignores_case:
  "mounted [''v1'', ''auth''] [''v1'', ''AUTH'', ''login'']"
  "mounted [''v1''] [''V1'', ''orders'']"
  "\<not> mounted [''v1'', ''auth''] [''V1'', ''orders'']"
  by (simp_all add: mounted_def lower_str_def lower_char_def)

lemma mounted_v1_not_route:
  assumes "mounted [''v1''] p"
  shows "\<not> route_is [''status''] p" and "\<not> route_is [''health''] p"
proof -
  from assms obtain z zs where p: "p = z # zs" and z: "lower_str z = ''v1''"
    by (cases p) (auto simp: mounted_def lower_segments)
  show "\<not> route_is [''status''] p" using z by (auto simp: route_is_def p lower_segments)
  show "\<not> route_is [''health''] p" using z by (auto simp: route_is_def p lower_segments)
qed

lemma mounted_auth_v1: "mounted [''v1'', ''auth''] p \<Longrightarrow> mounted [''v1''] p"
  by (cases p) (auto simp: mounted_def)

lemma routes_protected:
  "protected_path req \<Longrightarrow> routes ev now gw req = protectedRouter ev now gw req"
  using mounted_v1_not_route [of "path req"]
  by (auto simp: routes_def protected_path_def)

lemma routes_public_auth:
  "mounted [''v1'', ''auth''] (path req) \<Longrightarrow> routes ev now gw req = via_users ev now gw req"
  using mounted_v1_not_route [of "path req"] mounted_auth_v1 [of "path req"]
  by (auto simp: routes_def)

lemma fire_open:
  "effective_state opts b now = OPEN \<Longrightarrow>
   fire opts m net now b ob = (Resolved fallback_value, b, [])"
  by (simp add: fire_def)

lemma fire_not_open:
  "effective_state opts b now \<noteq> OPEN \<Longrightarrow>
   fire opts m net now b ob =
     (fire_result opts (net ob),
      on_outcome opts m now (effective_state opts b now) (is_failure opts (net ob)) b, [ob])"
  by (simp add: fire_def Let_def)

text \<open>
  The fallback value has no \<^verbatim>\<open>status\<close>: the \<^verbatim>\<open>then\<close> branch throws on it and the
  \<^verbatim>\<open>catch\<close> branch answers 503.
\<close>

lemma respond_fallback: "respond (Resolved fallback_value) = Json 503 unavailable"
  by (simp add: respond_def on_resolved_def fallback_value_def on_rejected_def thrown_error_def
      js_or_def js_get_opt_def)

lemma dom_requestHeaders:
  "dom (requestHeaders req) \<subseteq> {''x-request-id'', ''Content-Type'', ''x-user-id'', ''x-user-roles''}"
  by (auto simp: requestHeaders_def Let_def split: if_splits)

lemma requestHeaders_user_id:
  "requestHeaders req ''x-user-id'' =
     (if truthy (hdr req ''x-user-id'') then Some (hdr req ''x-user-id'') else None)"
  by (simp add: requestHeaders_def Let_def)

lemma requestHeaders_user_roles:
  "requestHeaders req ''x-user-roles'' =
     (if truthy (hdr req ''x-user-roles'') then Some (hdr req ''x-user-roles'') else None)"
  by (simp add: requestHeaders_def Let_def)

lemma requestHeaders_authorization: "requestHeaders req ''authorization'' = None"
  by (simp add: requestHeaders_def Let_def)

lemma authenticateJWT_Next:
  assumes "authenticateJWT vf req = Next req'"
  shows "\<exists>user uid roles joined.
           bearer_shaped (hdr req ''authorization'') \<and>
           jwt_verify vf (bearer_token (hdr req ''authorization'')) = Inr user \<and>
           js_get user ''id'' = Some uid \<and> js_get user ''roles'' = Some roles \<and>
           js_join roles '','' = Some joined \<and>
           req' = req\<lparr>headers := (headers req)(''x-user-id'' \<mapsto> uid,
                                                ''x-user-roles'' \<mapsto> JStr joined)\<rparr>"
  using assms
  by (auto simp: authenticateJWT_def attach_identity_def Let_def
      split: if_splits sum.splits option.splits)

lemma absent_not_bearer_shaped:
  "headers req ''authorization'' = None \<Longrightarrow> \<not> bearer_shaped (hdr req ''authorization'')"
  by (simp add: hdr_def bearer_shaped_def)

lemma js_join_not_array: "\<forall>xs. roles \<noteq> JArr xs \<Longrightarrow> js_join roles sep = None"
  by (cases roles) simp_all

lemma via_users_not_open:
  assumes "effective_state circuitOptions (usersCircuit gw) now \<noteq> OPEN"
  shows "snd (snd (via_users ev now gw req))
           = [forwardRequest req USERS_SERVICE_URL (originalUrl req)]"
  using assms by (simp add: via_users_def handleServiceRequest_def fire_not_open)

lemma protected_noauth: "protected_path noauth_req"
  by (simp add: protected_path_def mounted_def noauth_req_def lower_segments)

lemma protected_bearer: "protected_path bearer_req"
  by (simp add: protected_path_def mounted_def bearer_req_def lower_segments)

lemma bearer_req_shaped: "bearer_shaped (hdr bearer_req ''authorization'')"
  by (simp add: hdr_def bearer_req_def bearer_shaped_def startsWith_def)

lemma auth_two_roles: "authenticateJWT two_roles_verify bearer_req = Next authed_req"
  by (simp add: authenticateJWT_def hdr_def bearer_req_def bearer_shaped_def startsWith_def
      jwt_verify_def bearer_token_def str_at_def two_roles_verify_def attach_identity_def
      join_elems_def authed_req_def Let_def)

lemma handle_admit:
  "handle ev now gw req =
     (if fst (admit (buckets gw) (ip req) now)
      then routes ev now (gw\<lparr>buckets := snd (admit (buckets gw) (ip req) now)\<rparr>) req
      else (RateLimited, gw\<lparr>buckets := snd (admit (buckets gw) (ip req) now)\<rparr>, []))"
  by (cases "admit (buckets gw) (ip req) now") (auto simp: handle_def)

lemma protectedRouter_Respond:
  "authenticateJWT (e_verify ev) req = Respond r \<Longrightarrow> protectedRouter ev now gw req = (r, gw, [])"
  by (simp add: protectedRouter_def)

lemma auth_noauth:
  "authenticateJWT vf noauth_req
     = Respond (Json 401 (envelope ''UNAUTHORIZED''
                            ''Authorization header with Bearer token is missing''))"
  by (simp add: authenticateJWT_def hdr_def noauth_req_def bearer_shaped_def)

lemma handle_protected:
  assumes "protected_path req"
  shows "handle ev now gw req =
           (if fst (admit (buckets gw) (ip req) now)
            then protectedRouter ev now (gw\<lparr>buckets := snd (admit (buckets gw) (ip req) now)\<rparr>) req
            else (RateLimited, gw\<lparr>buckets := snd (admit (buckets gw) (ip req) now)\<rparr>, []))"
  using assms by (simp add: handle_admit routes_protected)

lemma limited_noauth: "\<not> fst (admit (buckets limited_gateway) (ip noauth_req) 5)"
  by (simp add: admit_def limited_gateway_def noauth_req_def windowMs_def max_requests_def)

lemma limited_bearer: "\<not> fst (admit (buckets limited_gateway) (ip bearer_req) 5)"
  by (simp add: admit_def limited_gateway_def bearer_req_def windowMs_def max_requests_def)

lemma fresh_admits: "fst (admit (buckets fresh_gateway) k t)"
  by (simp add: admit_def fresh_gateway_def)

section \<open>The open breaker\<close>

text \<open>
  C2. A request routed to a backend whose breaker is OPEN (opened less than the
  open-duration ago) makes no outbound call, leaves the breaker as it is, and is answered
  with status 503 and the SERVICE_UNAVAILABLE envelope.
\<close>

theorem open_breaker_short_circuits:
  assumes "effective_state circuitOptions b now = OPEN"
  shows "handleServiceRequest ev now b url req
           = (Json 503 (envelope ''SERVICE_UNAVAILABLE'' ''Service is unavailable''), b, [])"
  using assms
  by (simp add: handleServiceRequest_def fire_open respond_fallback unavailable_def)

theorem open_breaker_short_circuits_witness:
  "effective_state circuitOptions open_breaker 2000 = OPEN
   \<and> handleServiceRequest strict_env 2000 open_breaker USERS_SERVICE_URL login_req
       = (Json 503 (envelope ''SERVICE_UNAVAILABLE'' ''Service is unavailable''), open_breaker, [])"
proof -
  have e: "effective_state circuitOptions open_breaker 2000 = OPEN"
    by (simp add: effective_state_def open_breaker_def circuitOptions_def)
  from open_breaker_short_circuits [OF e] e show ?thesis by simp
qed

section \<open>The authentication gate\<close>

text \<open>
  C7, as the code has it. The rate limiter comes first: a request to a protected path (a
  path under \<^verbatim>\<open>/v1\<close> other than \<^verbatim>\<open>/v1/auth\<close>, in any case of the letters) that the
  limiter rejects is answered 429. If the limiter admits it: when the Authorization
  header is absent or not bearer-shaped the answer is 401 with the UNAUTHORIZED envelope;
  when it is bearer-shaped and the verification of the token fails, whatever the error,
  the answer is 403 with the FORBIDDEN envelope. In no case a breaker changes or a
  backend is called.
\<close>

theorem auth_failure_status:
  assumes "protected_path req"
  shows "((headers req ''authorization'' = None \<or> \<not> bearer_shaped (hdr req ''authorization'')) \<longrightarrow>
            handle ev now gw req
              = (if fst (admit (buckets gw) (ip req) now)
                 then Json 401 (envelope ''UNAUTHORIZED''
                                  ''Authorization header with Bearer token is missing'')
                 else RateLimited,
                 gw\<lparr>buckets := snd (admit (buckets gw) (ip req) now)\<rparr>, []))
       \<and> (bearer_shaped (hdr req ''authorization'')
            \<and> jwt_verify (e_verify ev) (bearer_token (hdr req ''authorization'')) = Inl err \<longrightarrow>
            handle ev now gw req
              = (if fst (admit (buckets gw) (ip req) now)
                 then Json 403 (envelope ''FORBIDDEN'' ''Invalid or expired token'')
                 else RateLimited,
                 gw\<lparr>buckets := snd (admit (buckets gw) (ip req) now)\<rparr>, []))"
  using assms absent_not_bearer_shaped [of req]
  by (auto simp: handle_protected protectedRouter_def authenticateJWT_def Let_def)

theorem auth_failure_status_witness:
  "protected_path noauth_req \<and> headers noauth_req ''authorization'' = None
   \<and> fst (handle strict_env 0 fresh_gateway noauth_req)
       = Json 401 (envelope ''UNAUTHORIZED'' ''Authorization header with Bearer token is missing'')
   \<and> protected_path bearer_req \<and> bearer_shaped (hdr bearer_req ''authorization'')
   \<and> jwt_verify (e_verify strict_env) (bearer_token (hdr bearer_req ''authorization''))
       = Inl JsonWebTokenError
   \<and> fst (handle strict_env 0 fresh_gateway bearer_req)
       = Json 403 (envelope ''FORBIDDEN'' ''Invalid or expired token'')"
proof -
  have a: "headers noauth_req ''authorization'' = None"
    by (simp add: noauth_req_def)
  have v: "jwt_verify (e_verify strict_env) (bearer_token (hdr bearer_req ''authorization''))
       = Inl JsonWebTokenError"
    by (simp add: jwt_verify_def strict_env_def reject_all_verify_def bearer_token_def hdr_def
        bearer_req_def str_at_def)
  from auth_failure_status [OF protected_noauth, where ev = strict_env and now = 0
      and gw = fresh_gateway] a
  have r1: "fst (handle strict_env 0 fresh_gateway noauth_req)
       = Json 401 (envelope ''UNAUTHORIZED'' ''Authorization header with Bearer token is missing'')"
    by (simp add: fresh_admits)
  from auth_failure_status [OF protected_bearer, where ev = strict_env and now = 0
      and gw = fresh_gateway and err = JsonWebTokenError] bearer_req_shaped v
  have r2: "fst (handle strict_env 0 fresh_gateway bearer_req)
       = Json 403 (envelope ''FORBIDDEN'' ''Invalid or expired token'')"
    by (simp add: fresh_admits)
  from a bearer_req_shaped v r1 r2 protected_noauth protected_bearer show ?thesis by simp
qed

text \<open>
  C7 as stated fails: a request without credential to a protected path, from a client
  that has used up its window, is answered 429, not 401.
\<close>

theorem rate_limited_before_401:
  "protected_path noauth_req \<and> headers noauth_req ''authorization'' = None
   \<and> fst (handle strict_env 5 limited_gateway noauth_req) = RateLimited
   \<and> status_of (fst (handle strict_env 5 limited_gateway noauth_req)) = Some 429"
  using protected_noauth limited_noauth
  by (simp add: handle_protected noauth_req_def)

text \<open>
  C10, as the code has it. For a request to a protected path with a bearer token that
  verifies and whose payload has no array under \<^verbatim>\<open>roles\<close>: \<open>authenticateJWT\<close> throws on
  it. The rate limiter comes first: if it rejects the request the answer is 429; if it
  admits the request the answer is 500 with the INTERNAL_SERVER_ERROR envelope. Nothing
  is forwarded.
\<close>

theorem missing_roles_is_500:
  assumes "protected_path req"
    and "bearer_shaped (hdr req ''authorization'')"
    and "jwt_verify (e_verify ev) (bearer_token (hdr req ''authorization'')) = Inr user"
    and "\<forall>xs. js_get user ''roles'' \<noteq> Some (JArr xs)"
  shows "authenticateJWT (e_verify ev) req = Throw
       \<and> handle ev now gw req
           = (if fst (admit (buckets gw) (ip req) now)
              then Json 500 (envelope ''INTERNAL_SERVER_ERROR'' ''An unexpected error occurred.'')
              else RateLimited,
              gw\<lparr>buckets := snd (admit (buckets gw) (ip req) now)\<rparr>, [])"
proof -
  have "attach_identity req user = Throw"
  proof (cases "js_get user ''id''")
    case None
    then show ?thesis by (simp add: attach_identity_def)
  next
    case (Some uid)
    show ?thesis
    proof (cases "js_get user ''roles''")
      case None
      with Some show ?thesis by (simp add: attach_identity_def)
    next
      case (Some roles)
      with assms(4) have "\<forall>xs. roles \<noteq> JArr xs" by simp
      then have "js_join roles '','' = None" by (rule js_join_not_array)
      with Some \<open>js_get user ''id'' = Some uid\<close> show ?thesis by (simp add: attach_identity_def)
    qed
  qed
  with assms(2,3) have t: "authenticateJWT (e_verify ev) req = Throw"
    by (simp add: authenticateJWT_def Let_def)
  with assms(1) show ?thesis
    by (simp add: handle_protected protectedRouter_def errorHandler_def)
qed

lemma no_roles_verified:
  "jwt_verify (e_verify no_roles_env) (bearer_token (hdr bearer_req ''authorization''))
     = Inr (JObj [(''id'', JStr ''u1'')])"
  by (simp add: jwt_verify_def no_roles_env_def no_roles_verify_def bearer_token_def hdr_def
      bearer_req_def str_at_def)

theorem missing_roles_is_500_witness:
  "protected_path bearer_req \<and> bearer_shaped (hdr bearer_req ''authorization'')
   \<and> jwt_verify (e_verify no_roles_env) (bearer_token (hdr bearer_req ''authorization''))
       = Inr (JObj [(''id'', JStr ''u1'')])
   \<and> (\<forall>xs. js_get (JObj [(''id'', JStr ''u1'')]) ''roles'' \<noteq> Some (JArr xs))
   \<and> fst (handle no_roles_env 0 fresh_gateway bearer_req)
       = Json 500 (envelope ''INTERNAL_SERVER_ERROR'' ''An unexpected error occurred.'')
   \<and> snd (snd (handle no_roles_env 0 fresh_gateway bearer_req)) = []"
proof -
  have r: "\<forall>xs. js_get (JObj [(''id'', JStr ''u1'')]) ''roles'' \<noteq> Some (JArr xs)"
    by simp
  from missing_roles_is_500 [OF protected_bearer bearer_req_shaped no_roles_verified r,
      where now = 0 and gw = fresh_gateway]
    bearer_req_shaped no_roles_verified r protected_bearer
  show ?thesis by (simp add: fresh_admits)
qed

text \<open>
  C10 as stated fails: a request to a protected path with a token that verifies and has
  no roles, from a client that has used up its window, is answered 429, not 500.
\<close>

theorem rate_limited_before_500:
  "protected_path bearer_req \<and> bearer_shaped (hdr bearer_req ''authorization'')
   \<and> jwt_verify (e_verify no_roles_env) (bearer_token (hdr bearer_req ''authorization''))
       = Inr (JObj [(''id'', JStr ''u1'')])
   \<and> fst (handle no_roles_env 5 limited_gateway bearer_req) = RateLimited
   \<and> status_of (fst (handle no_roles_env 5 limited_gateway bearer_req)) = Some 429"
  using protected_bearer limited_bearer bearer_req_shaped no_roles_verified
  by (simp add: handle_protected)

section \<open>Forwarded headers\<close>

text \<open>
  C8, as the code has it. The headers of an outbound call are among x-request-id,
  Content-Type, x-user-id and x-user-roles, and never hold the Authorization header.
  After a credential that verifies and carries an array of roles, x-user-id is on the
  forwarded request when the payload's id is truthy, and x-user-roles, the comma-joined
  roles, when that string is not empty.
\<close>

theorem forwarded_headers_allow_list:
  "dom (o_headers (forwardRequest r url p))
     \<subseteq> {''x-request-id'', ''Content-Type'', ''x-user-id'', ''x-user-roles''}
   \<and> o_headers (forwardRequest r url p) ''authorization'' = None
   \<and> (authenticateJWT vf req = Next req' \<longrightarrow>
       (\<exists>user uid roles joined.
          jwt_verify vf (bearer_token (hdr req ''authorization'')) = Inr user \<and>
          js_get user ''id'' = Some uid \<and> js_get user ''roles'' = Some roles \<and>
          js_join roles '','' = Some joined \<and>
          o_headers (forwardRequest req' url p) ''x-user-id''
            = (if truthy uid then Some uid else None) \<and>
          o_headers (forwardRequest req' url p) ''x-user-roles''
            = (if joined \<noteq> [] then Some (JStr joined) else None)))"
proof (intro conjI impI)
  show "dom (o_headers (forwardRequest r url p))
     \<subseteq> {''x-request-id'', ''Content-Type'', ''x-user-id'', ''x-user-roles''}"
    using dom_requestHeaders [of r] by (simp add: forwardRequest_def)
  show "o_headers (forwardRequest r url p) ''authorization'' = None"
    by (simp add: forwardRequest_def requestHeaders_authorization)
next
  assume "authenticateJWT vf req = Next req'"
  then obtain user uid roles joined where
    v: "jwt_verify vf (bearer_token (hdr req ''authorization'')) = Inr user"
    and i: "js_get user ''id'' = Some uid" and r: "js_get user ''roles'' = Some roles"
    and j: "js_join roles '','' = Some joined"
    and q: "req' = req\<lparr>headers := (headers req)(''x-user-id'' \<mapsto> uid,
                                                 ''x-user-roles'' \<mapsto> JStr joined)\<rparr>"
    using authenticateJWT_Next by blast
  have "hdr req' ''x-user-id'' = uid" and "hdr req' ''x-user-roles'' = JStr joined"
    by (simp_all add: q hdr_def)
  then have "o_headers (forwardRequest req' url p) ''x-user-id''
               = (if truthy uid then Some uid else None)"
    and "o_headers (forwardRequest req' url p) ''x-user-roles''
               = (if joined \<noteq> [] then Some (JStr joined) else None)"
    by (simp_all add: forwardRequest_def requestHeaders_user_id requestHeaders_user_roles)
  with v i r j show "\<exists>user uid roles joined.
          jwt_verify vf (bearer_token (hdr req ''authorization'')) = Inr user \<and>
          js_get user ''id'' = Some uid \<and> js_get user ''roles'' = Some roles \<and>
          js_join roles '','' = Some joined \<and>
          o_headers (forwardRequest req' url p) ''x-user-id''
            = (if truthy uid then Some uid else None) \<and>
          o_headers (forwardRequest req' url p) ''x-user-roles''
            = (if joined \<noteq> [] then Some (JStr joined) else None)"
    by blast
qed

theorem forwarded_headers_allow_list_witness:
  "authenticateJWT two_roles_verify bearer_req = Next authed_req
   \<and> o_headers (forwardRequest authed_req USERS_SERVICE_URL ''/v1/users/profile'') ''x-user-id''
       = Some (JStr ''u1'')
   \<and> o_headers (forwardRequest authed_req USERS_SERVICE_URL ''/v1/users/profile'') ''x-user-roles''
       = Some (JStr ''user,admin'')"
  using forwarded_headers_allow_list [where vf = two_roles_verify and req = bearer_req
      and req' = authed_req and url = USERS_SERVICE_URL and p = "''/v1/users/profile''"]
    auth_two_roles
  by (auto simp: jwt_verify_def bearer_token_def hdr_def bearer_req_def str_at_def
      two_roles_verify_def join_elems_def)

text \<open>
  C8 as stated fails: a token that verifies with an empty array of roles is accepted, the
  request is forwarded and answered by the backend, and the forwarded request has no
  x-user-roles header.
\<close>

theorem empty_roles_not_forwarded:
  "fst (routes empty_roles_env 0 fresh_gateway bearer_req) = Json 200 (JObj [])
   \<and> forwarded_header (routes empty_roles_env 0 fresh_gateway bearer_req) ''x-user-roles'' = [None]"
  by (simp add: forwarded_header_def routes_def empty_roles_env_def fresh_gateway_def bearer_req_def
      mounted_def route_is_def lower_str_def lower_char_def
      protectedRouter_def authenticateJWT_def hdr_def bearer_shaped_def startsWith_def
      jwt_verify_def bearer_token_def str_at_def empty_roles_verify_def attach_identity_def join_elems_def
      via_users_def handleServiceRequest_def fire_def effective_state_def createCircuitBreaker_def
      forwardRequest_def requestHeaders_def Let_def call_settle_def timed_out_def circuitOptions_def
      fire_result_def is_failure_def
      ok_reply_def validateStatus_def respond_def on_resolved_def response_obj_def)

text \<open>
  C9, as the code has it. A request under \<^verbatim>\<open>/v1/auth\<close> is forwarded to the users service
  without any verification (whatever \<open>e_verify\<close> is), while the users breaker lets calls
  through; on the forwarded request x-user-id and x-user-roles are the client's own
  values where these are truthy (a non-empty string), and are absent otherwise.
\<close>

theorem public_route_identity_headers:
  assumes "mounted [''v1'', ''auth''] (path req)"
    and "effective_state circuitOptions (usersCircuit gw) now \<noteq> OPEN"
  shows "\<exists>ob. snd (snd (routes ev now gw req)) = [ob]
           \<and> o_headers ob ''x-user-id''
               = (if truthy (hdr req ''x-user-id'') then headers req ''x-user-id'' else None)
           \<and> o_headers ob ''x-user-roles''
               = (if truthy (hdr req ''x-user-roles'') then headers req ''x-user-roles'' else None)"
proof -
  have "snd (snd (routes ev now gw req)) = [forwardRequest req USERS_SERVICE_URL (originalUrl req)]"
    using assms by (simp add: routes_public_auth via_users_not_open)
  moreover have "o_headers (forwardRequest req USERS_SERVICE_URL (originalUrl req)) ''x-user-id''
      = (if truthy (hdr req ''x-user-id'') then headers req ''x-user-id'' else None)"
    by (auto simp: forwardRequest_def requestHeaders_user_id hdr_def split: option.splits)
  moreover have "o_headers (forwardRequest req USERS_SERVICE_URL (originalUrl req)) ''x-user-roles''
      = (if truthy (hdr req ''x-user-roles'') then headers req ''x-user-roles'' else None)"
    by (auto simp: forwardRequest_def requestHeaders_user_roles hdr_def split: option.splits)
  ultimately show ?thesis by simp
qed

theorem public_route_identity_headers_witness:
  "mounted [''v1'', ''auth''] (path login_req)
   \<and> effective_state circuitOptions (usersCircuit fresh_gateway) 0 \<noteq> OPEN
   \<and> forwarded_header (routes strict_env 0 fresh_gateway login_req) ''x-user-id''
       = [Some (JStr ''admin-1'')]"
proof -
  have m: "mounted [''v1'', ''auth''] (path login_req)"
    by (simp add: mounted_def login_req_def lower_segments)
  have c: "effective_state circuitOptions (usersCircuit fresh_gateway) 0 \<noteq> OPEN"
    by (simp add: effective_state_def fresh_gateway_def createCircuitBreaker_def)
  from public_route_identity_headers [OF m c, of strict_env]
  have "forwarded_header (routes strict_env 0 fresh_gateway login_req) ''x-user-id''
       = [Some (JStr ''admin-1'')]"
    by (auto simp: forwarded_header_def hdr_def login_req_def)
  with m c show ?thesis by simp
qed

text \<open>
  C9 as stated fails: an x-user-roles header that the client sends with an empty value is
  not on the forwarded request.
\<close>

theorem empty_identity_header_dropped:
  "headers login_req ''x-user-roles'' = Some (JStr '''')
   \<and> forwarded_header (routes strict_env 0 fresh_gateway login_req) ''x-user-roles'' = [None]"
  by (simp add: forwarded_header_def routes_def strict_env_def fresh_gateway_def login_req_def
      mounted_def route_is_def lower_str_def lower_char_def
      hdr_def via_users_def handleServiceRequest_def fire_def effective_state_def
      createCircuitBreaker_def forwardRequest_def requestHeaders_def Let_def)

section \<open>The order of the stages\<close>

text \<open>
  C4, as the code has it. The rate limiter is mounted before the routes: a request to a
  protected path whose authentication fails has first been through the limiter, which
  has read and updated the bucket of the client and may have rejected the request (429).
  If admitted, the request is answered at the authentication gate; in both cases
  neither breaker changes and no backend is called.
\<close>

theorem auth_failure_after_limiter:
  assumes "protected_path req"
    and "authenticateJWT (e_verify ev) req = Respond r"
  shows "handle ev now gw req =
           (if fst (admit (buckets gw) (ip req) now) then r else RateLimited,
            gw\<lparr>buckets := snd (admit (buckets gw) (ip req) now)\<rparr>, [])"
  using assms by (simp add: handle_admit routes_protected protectedRouter_Respond)

theorem auth_failure_after_limiter_witness:
  "protected_path noauth_req
   \<and> authenticateJWT (e_verify strict_env) noauth_req
       = Respond (Json 401 (envelope ''UNAUTHORIZED''
                              ''Authorization header with Bearer token is missing''))
   \<and> snd (snd (handle strict_env 5 fresh_gateway noauth_req)) = []
   \<and> usersCircuit (fst (snd (handle strict_env 5 fresh_gateway noauth_req))) = createCircuitBreaker
   \<and> ordersCircuit (fst (snd (handle strict_env 5 fresh_gateway noauth_req))) = createCircuitBreaker"
  using auth_failure_after_limiter [OF protected_noauth auth_noauth, of strict_env 5 fresh_gateway]
    protected_noauth auth_noauth [of "e_verify strict_env"]
  by (simp add: fresh_gateway_def)

text \<open>
  C4 as stated fails: a request without credential to a protected path, the first of its
  client, is answered 401 and has created the client's bucket in the rate limiter.
\<close>

theorem failed_auth_touches_limiter:
  "fst (handle strict_env 5 fresh_gateway noauth_req)
     = Json 401 (envelope ''UNAUTHORIZED'' ''Authorization header with Bearer token is missing'')
   \<and> buckets fresh_gateway (ip noauth_req) = None
   \<and> buckets (fst (snd (handle strict_env 5 fresh_gateway noauth_req))) (ip noauth_req)
       = Some \<lparr>window_start = 5, count = 1\<rparr>"
  by (simp add: handle_def admit_def fresh_gateway_def noauth_req_def routes_def mounted_def
      route_is_def lower_str_def lower_char_def
      protectedRouter_def authenticateJWT_def hdr_def bearer_shaped_def strict_env_def)

section \<open>Outcome classification\<close>

lemma is_failure_iff:
  "is_failure opts r \<longleftrightarrow>
     timed_out opts r \<or> result r = NetworkError \<or> (\<exists>s d. result r = Response s d \<and> 500 \<le> s)"
  by (cases "result r") (auto simp: is_failure_def call_settle_def validateStatus_def)

lemma completed_4xx_success: "completed_4xx r \<Longrightarrow> \<not> is_failure circuitOptions r"
  by (auto simp: completed_4xx_def is_failure_iff split: axios_result.splits)

lemma fire_success_failures:
  assumes "\<not> is_failure opts r"
  shows "failures (fst (snd (fire opts m (\<lambda>x. r) now b ob))) \<le> failures b"
  using assms by (simp add: fire_def Let_def on_outcome_def record_outcome_def)

lemma fire_success_closed:
  assumes "\<not> is_failure opts r" and "state b = CLOSED"
  shows "state (fst (snd (fire opts m (\<lambda>x. r) now b ob))) = CLOSED
       \<and> failures (fst (snd (fire opts m (\<lambda>x. r) now b ob))) = failures b"
  using assms by (simp add: fire_def Let_def on_outcome_def record_outcome_def effective_state_def)

lemma fire_all_4xx_closed:
  assumes "state b = CLOSED" and "\<forall>c \<in> set cs. completed_4xx (snd c)"
  shows "state (fire_all circuitOptions m b cs ob) = CLOSED
       \<and> failures (fire_all circuitOptions m b cs ob) = failures b"
  using assms
proof (induction cs arbitrary: b)
  case Nil
  then show ?case by simp
next
  case (Cons c cs)
  obtain now r where c: "c = (now, r)" by (cases c)
  with Cons.prems have ok: "\<not> is_failure circuitOptions r"
    by (simp add: completed_4xx_success)
  let ?b = "fst (snd (fire circuitOptions m (\<lambda>x. r) now b ob))"
  from fire_success_closed [OF ok Cons.prems(1)]
  have s: "state ?b = CLOSED" and f: "failures ?b = failures b" by simp_all
  from Cons.IH [OF s] Cons.prems(2) f show ?case by (simp add: c)
qed

text \<open>
  C1. A call is a failure for the breaker exactly when it exceeds the call-timeout, fails
  at the network level, or completes with a status of 500 or above. A response that
  completes in time with a 4xx status is a success: it never increases the failure count,
  and any run of such responses leaves a CLOSED breaker CLOSED with its failure count
  unchanged.
\<close>

theorem client_errors_are_successes:
  "(is_failure circuitOptions r \<longleftrightarrow>
      timed_out circuitOptions r \<or> result r = NetworkError
      \<or> (\<exists>s d. result r = Response s d \<and> 500 \<le> s))
   \<and> (completed_4xx r \<longrightarrow>
        \<not> is_failure circuitOptions r
        \<and> failures (fst (snd (fire circuitOptions m (\<lambda>x. r) now b ob))) \<le> failures b)
   \<and> (state b = CLOSED \<and> (\<forall>c \<in> set cs. completed_4xx (snd c)) \<longrightarrow>
        state (fire_all circuitOptions m b cs ob) = CLOSED
        \<and> failures (fire_all circuitOptions m b cs ob) = failures b)"
  using is_failure_iff [of circuitOptions r] completed_4xx_success [of r]
    fire_success_failures [of circuitOptions r m now b ob]
    fire_all_4xx_closed [of b cs m ob]
  by blast

theorem client_errors_are_successes_witness:
  "completed_4xx not_found_reply
   \<and> state createCircuitBreaker = CLOSED
   \<and> state (fire_all circuitOptions 0 createCircuitBreaker (replicate 10 (7, not_found_reply))
        (forwardRequest bearer_req USERS_SERVICE_URL ''/v1/users/profile'')) = CLOSED
   \<and> failures (fire_all circuitOptions 0 createCircuitBreaker (replicate 10 (7, not_found_reply))
        (forwardRequest bearer_req USERS_SERVICE_URL ''/v1/users/profile'')) = 0"
proof -
  have a: "completed_4xx not_found_reply"
    by (simp add: completed_4xx_def not_found_reply_def timed_out_def circuitOptions_def)
  have b: "state createCircuitBreaker = CLOSED" and f: "failures createCircuitBreaker = 0"
    by (simp_all add: createCircuitBreaker_def)
  have c: "\<forall>c \<in> set (replicate 10 (7, not_found_reply)). completed_4xx (snd c)"
    using a by simp
  from client_errors_are_successes [where b = createCircuitBreaker
      and cs = "replicate 10 (7, not_found_reply)" and m = 0
      and ob = "forwardRequest bearer_req USERS_SERVICE_URL ''/v1/users/profile''"] a b c f
  show ?thesis by simp
qed

section \<open>The fixed window\<close>

lemma admit_first:
  "bs k = None \<Longrightarrow> admit bs k t = (True, bs(k \<mapsto> \<lparr>window_start = t, count = 1\<rparr>))"
  by (simp add: admit_def)

lemma admit_in_window:
  assumes "bs k = Some \<lparr>window_start = s, count = c\<rparr>" and "t < s + windowMs"
  shows "admit bs k t =
           (c < max_requests,
            if c < max_requests then bs(k \<mapsto> \<lparr>window_start = s, count = Suc c\<rparr>) else bs)"
  using assms by (simp add: admit_def)

lemma admit_after_window:
  assumes "bs k = Some b" and "window_start b + windowMs \<le> t"
  shows "admit bs k t = (True, bs(k \<mapsto> \<lparr>window_start = t, count = 1\<rparr>))"
  using assms by (simp add: admit_def)

lemma admit_other_key: "k' \<noteq> k \<Longrightarrow> snd (admit bs k' t) k = bs k"
  by (simp add: admit_def split: option.splits)

lemma admit_all_Cons:
  "admit_all bs k (t # ts) =
     (fst (admit bs k t) # fst (admit_all (snd (admit bs k t)) k ts),
      snd (admit_all (snd (admit bs k t)) k ts))"
  by (simp split: prod.splits)

lemma admit_all_in_window:
  assumes "bs k = Some \<lparr>window_start = s, count = c\<rparr>" and "c \<le> max_requests"
    and "\<forall>t \<in> set ts. t < s + windowMs"
  shows "fst (admit_all bs k ts) = map (\<lambda>i. c + i < max_requests) [0..<length ts]
       \<and> snd (admit_all bs k ts) k
           = Some \<lparr>window_start = s, count = min max_requests (c + length ts)\<rparr>"
  using assms
proof (induction ts arbitrary: bs c)
  case Nil
  then show ?case by simp
next
  case (Cons t ts)
  from Cons.prems have t: "t < s + windowMs" by simp
  have rest: "\<forall>t \<in> set ts. t < s + windowMs" using Cons.prems(3) by simp
  note step = admit_in_window [where bs = bs and k = k, OF Cons.prems(1) t]
  show ?case
  proof (cases "c < max_requests")
    case True
    define bs' where "bs' = bs(k \<mapsto> \<lparr>window_start = s, count = Suc c\<rparr>)"
    have 1: "bs' k = Some \<lparr>window_start = s, count = Suc c\<rparr>" by (simp add: bs'_def)
    have 2: "Suc c \<le> max_requests" using True by simp
    have st: "admit bs k t = (True, bs')" using step True by (simp add: bs'_def)
    have ih: "fst (admit_all bs' k ts) = map (\<lambda>i. Suc c + i < max_requests) [0..<length ts]
       \<and> snd (admit_all bs' k ts) k
           = Some \<lparr>window_start = s, count = min max_requests (Suc c + length ts)\<rparr>"
      using Cons.IH [of bs' "Suc c"] 1 2 rest by blast
    have "fst (admit_all bs k (t # ts)) = True # fst (admit_all bs' k ts)"
      and "snd (admit_all bs k (t # ts)) = snd (admit_all bs' k ts)"
      by (simp_all add: admit_all_Cons st del: admit_all.simps)
    with ih True show ?thesis
      by (simp add: map_upt_Suc del: upt_Suc admit_all.simps)
  next
    case False
    with Cons.prems(2) have c: "c = max_requests" by simp
    have st: "admit bs k t = (False, bs)" using step False by simp
    have ih: "fst (admit_all bs k ts) = map (\<lambda>i. c + i < max_requests) [0..<length ts]
       \<and> snd (admit_all bs k ts) k
           = Some \<lparr>window_start = s, count = min max_requests (c + length ts)\<rparr>"
      using Cons.IH [of bs c] Cons.prems(1,2) rest by blast
    have "fst (admit_all bs k (t # ts)) = False # fst (admit_all bs k ts)"
      and "snd (admit_all bs k (t # ts)) = snd (admit_all bs k ts)"
      by (simp_all add: admit_all_Cons st del: admit_all.simps)
    with ih show ?thesis
      by (simp add: map_upt_Suc c del: upt_Suc admit_all.simps)
  qed
qed

lemma handle_rejected:
  "\<not> fst (admit (buckets gw) (ip req) now) \<Longrightarrow>
   handle ev now gw req = (RateLimited, gw\<lparr>buckets := snd (admit (buckets gw) (ip req) now)\<rparr>, [])"
  by (cases "admit (buckets gw) (ip req) now") (auto simp: handle_def)

text \<open>
  C6. For a key without a bucket, asking at \<open>t0\<close> and then at instants within the
  window that \<open>t0\<close> opens: the requests are admitted up to the 100th and rejected from the
  101st on, the bucket keeps \<open>t0\<close> as the start of its window and counts the admitted
  requests; a request at or after the end of the window (15 minutes) is admitted and
  starts a fresh window with count 1. Requests of other keys leave the bucket alone, and
  a rejected request is answered with status 429.
\<close>

theorem fixed_window_counter:
  assumes "bs k = None"
    and "\<forall>t \<in> set ts. t < t0 + windowMs"
    and "t0 + windowMs \<le> t'"
  shows "fst (admit_all bs k (t0 # ts)) = map (\<lambda>i. i < max_requests) [0..<Suc (length ts)]
       \<and> snd (admit_all bs k (t0 # ts)) k
           = Some \<lparr>window_start = t0, count = min max_requests (Suc (length ts))\<rparr>
       \<and> fst (admit (snd (admit_all bs k (t0 # ts))) k t')
       \<and> snd (admit (snd (admit_all bs k (t0 # ts))) k t') k
           = Some \<lparr>window_start = t', count = 1\<rparr>
       \<and> (\<forall>k'. k' \<noteq> k \<longrightarrow> snd (admit bs k' t0) k = bs k)
       \<and> (\<not> fst (admit (buckets gw) (ip req) now) \<longrightarrow>
            fst (handle ev now gw req) = RateLimited \<and> status_of RateLimited = Some 429)
       \<and> windowMs = 900000 \<and> max_requests = 100"
proof -
  define bs' where "bs' = bs(k \<mapsto> \<lparr>window_start = t0, count = 1\<rparr>)"
  have 1: "bs' k = Some \<lparr>window_start = t0, count = 1\<rparr>" by (simp add: bs'_def)
  have 2: "(1::nat) \<le> max_requests" by (simp add: max_requests_def)
  have st: "admit bs k t0 = (True, bs')"
    using admit_first [where bs = bs and k = k, OF assms(1), of t0] by (simp add: bs'_def)
  have w: "fst (admit_all bs' k ts) = map (\<lambda>i. 1 + i < max_requests) [0..<length ts]
       \<and> snd (admit_all bs' k ts) k
           = Some \<lparr>window_start = t0, count = min max_requests (1 + length ts)\<rparr>"
    using admit_all_in_window [of bs' k t0 1 ts] 1 2 assms(2) by blast
  have "fst (admit_all bs k (t0 # ts)) = True # fst (admit_all bs' k ts)"
    and "snd (admit_all bs k (t0 # ts)) = snd (admit_all bs' k ts)"
    by (simp_all add: admit_all_Cons st del: admit_all.simps)
  with w 2 have a: "fst (admit_all bs k (t0 # ts)) = map (\<lambda>i. i < max_requests) [0..<Suc (length ts)]"
    and b: "snd (admit_all bs k (t0 # ts)) k
           = Some \<lparr>window_start = t0, count = min max_requests (Suc (length ts))\<rparr>"
    by (simp_all add: map_upt_Suc del: upt_Suc admit_all.simps)
  from admit_after_window [where bs = "snd (admit_all bs k (t0 # ts))" and k = k, OF b] assms(3)
  have c: "admit (snd (admit_all bs k (t0 # ts))) k t'
             = (True, (snd (admit_all bs k (t0 # ts)))(k \<mapsto> \<lparr>window_start = t', count = 1\<rparr>))"
    by simp
  have d: "\<forall>k'. k' \<noteq> k \<longrightarrow> snd (admit bs k' t0) k = bs k"
    by (simp add: admit_other_key)
  have e: "\<not> fst (admit (buckets gw) (ip req) now) \<longrightarrow>
            fst (handle ev now gw req) = RateLimited \<and> status_of RateLimited = Some 429"
    by (simp add: handle_rejected)
  have f: "windowMs = 900000 \<and> max_requests = 100"
    by (simp add: windowMs_def max_requests_def)
  from a b c d e f show ?thesis by simp
qed

theorem fixed_window_counter_witness:
  "(Map.empty :: string \<rightharpoonup> bucket) ''10.0.0.1'' = None
   \<and> (60000::nat) < 1000 + windowMs
   \<and> 1000 + windowMs \<le> 901000
   \<and> fst (admit_all Map.empty ''10.0.0.1'' (1000 # replicate 100 60000)) ! 99 = True
   \<and> fst (admit_all Map.empty ''10.0.0.1'' (1000 # replicate 100 60000)) ! 100 = False
   \<and> snd (admit_all Map.empty ''10.0.0.1'' (1000 # replicate 100 60000)) ''10.0.0.1''
       = Some \<lparr>window_start = 1000, count = 100\<rparr>
   \<and> snd (admit (snd (admit_all Map.empty ''10.0.0.1'' (1000 # replicate 100 60000)))
            ''10.0.0.1'' 901000) ''10.0.0.1''
       = Some \<lparr>window_start = 901000, count = 1\<rparr>"
proof -
  have h1: "(Map.empty :: string \<rightharpoonup> bucket) ''10.0.0.1'' = None" by simp
  have h2: "\<forall>t \<in> set (replicate 100 (60000::nat)). t < 1000 + windowMs"
    by (simp add: windowMs_def)
  have h3: "1000 + windowMs \<le> 901000" by (simp add: windowMs_def)
  from fixed_window_counter [where bs = Map.empty and k = "''10.0.0.1''", OF h1 h2 h3] h2 h3
  show ?thesis by (simp add: max_requests_def nth_append del: upt_Suc)
qed

section \<open>The trial call\<close>

lemma effective_open_before:
  "state b = OPEN \<Longrightarrow> now < last_transition b + resetTimeout opts \<Longrightarrow>
   effective_state opts b now = OPEN"
  by (simp add: effective_state_def)

lemma effective_half_open_after:
  "state b = OPEN \<Longrightarrow> last_transition b + resetTimeout opts \<le> now \<Longrightarrow>
   effective_state opts b now = HALF_OPEN"
  by (simp add: effective_state_def)

lemma fire_all_while_open:
  assumes "state b = OPEN"
    and "\<forall>c \<in> set early. fst c < last_transition b + resetTimeout opts"
  shows "fire_all opts m b early ob = b"
  using assms
proof (induction early)
  case Nil
  then show ?case by simp
next
  case (Cons c cs)
  obtain t r where c: "c = (t, r)" by (cases c)
  with Cons.prems have "effective_state opts b t = OPEN"
    by (simp add: effective_open_before)
  then have "fire opts m (\<lambda>x. r) t b ob = (Resolved fallback_value, b, [])"
    by (rule fire_open)
  with Cons c show ?case by simp
qed

lemma trial_call:
  assumes "state b = OPEN" and "last_transition b + resetTimeout opts \<le> now"
  shows "fire opts m net now b ob =
           (fire_result opts (net ob),
            on_outcome opts m now HALF_OPEN (is_failure opts (net ob)) b, [ob])"
  using assms by (simp add: fire_not_open effective_half_open_after)

text \<open>
  C5. For a breaker that is OPEN: the calls that arrive before 30 seconds have passed
  since it opened leave it as it is, and the first call at or after that instant is
  attempted. If this trial call succeeds the breaker is CLOSED with both counters at
  zero; if it fails the breaker is OPEN again, opened at the instant of the trial, and
  stays OPEN for the next 30 seconds.
\<close>

theorem half_open_trial:
  assumes "state b = OPEN"
    and "\<forall>c \<in> set early. fst c < last_transition b + 30000"
    and "last_transition b + 30000 \<le> now"
  shows "resetTimeout circuitOptions = 30000
       \<and> fire_all circuitOptions m b early ob = b
       \<and> snd (snd (fire circuitOptions m net now b ob)) = [ob]
       \<and> (\<not> is_failure circuitOptions (net ob) \<longrightarrow>
            fst (snd (fire circuitOptions m net now b ob))
              = \<lparr>state = CLOSED, failures = 0, total_count = 0, last_transition = now\<rparr>)
       \<and> (is_failure circuitOptions (net ob) \<longrightarrow>
            state (fst (snd (fire circuitOptions m net now b ob))) = OPEN
            \<and> last_transition (fst (snd (fire circuitOptions m net now b ob))) = now
            \<and> (\<forall>t. now \<le> t \<and> t < now + 30000 \<longrightarrow>
                  effective_state circuitOptions (fst (snd (fire circuitOptions m net now b ob))) t
                    = OPEN)
            \<and> effective_state circuitOptions (fst (snd (fire circuitOptions m net now b ob)))
                (now + 30000) = HALF_OPEN)"
proof -
  have r: "resetTimeout circuitOptions = 30000" by (simp add: circuitOptions_def)
  have e: "fire_all circuitOptions m b early ob = b"
    using assms(1,2) by (simp add: fire_all_while_open r)
  have f: "fire circuitOptions m net now b ob =
           (fire_result circuitOptions (net ob),
            on_outcome circuitOptions m now HALF_OPEN (is_failure circuitOptions (net ob)) b, [ob])"
    using assms(1,3) by (simp add: trial_call r)
  have s: "\<not> is_failure circuitOptions (net ob) \<longrightarrow>
            fst (snd (fire circuitOptions m net now b ob))
              = \<lparr>state = CLOSED, failures = 0, total_count = 0, last_transition = now\<rparr>"
    by (simp add: f on_outcome_def record_outcome_def)
  have g: "is_failure circuitOptions (net ob) \<longrightarrow>
            state (fst (snd (fire circuitOptions m net now b ob))) = OPEN
            \<and> last_transition (fst (snd (fire circuitOptions m net now b ob))) = now"
    by (simp add: f on_outcome_def record_outcome_def)
  from r e f s g show ?thesis
    by (simp add: effective_state_def)
qed

theorem half_open_trial_witness:
  "state open_breaker = OPEN
   \<and> 2000 < last_transition open_breaker + 30000
   \<and> 30999 < last_transition open_breaker + 30000
   \<and> last_transition open_breaker + 30000 \<le> 31000
   \<and> fire_all circuitOptions 0 open_breaker [(2000, ok_reply), (30999, ok_reply)]
        (forwardRequest login_req USERS_SERVICE_URL ''/v1/auth/login'') = open_breaker
   \<and> \<not> is_failure circuitOptions ok_reply
   \<and> fst (snd (fire circuitOptions 0 ok_net 31000 open_breaker
        (forwardRequest login_req USERS_SERVICE_URL ''/v1/auth/login'')))
       = \<lparr>state = CLOSED, failures = 0, total_count = 0, last_transition = 31000\<rparr>
   \<and> is_failure circuitOptions failing_reply
   \<and> state (fst (snd (fire circuitOptions 0 failing_net 31000 open_breaker
        (forwardRequest login_req USERS_SERVICE_URL ''/v1/auth/login'')))) = OPEN
   \<and> last_transition (fst (snd (fire circuitOptions 0 failing_net 31000 open_breaker
        (forwardRequest login_req USERS_SERVICE_URL ''/v1/auth/login'')))) = 31000"
proof -
  have h1: "state open_breaker = OPEN" by (simp add: open_breaker_def)
  have h2: "\<forall>c \<in> set [(2000, ok_reply), (30999, ok_reply)].
              fst c < last_transition open_breaker + 30000"
    by (simp add: open_breaker_def)
  have h3: "last_transition open_breaker + 30000 \<le> 31000" by (simp add: open_breaker_def)
  have ok: "\<not> is_failure circuitOptions ok_reply"
    by (simp add: is_failure_def call_settle_def timed_out_def circuitOptions_def ok_reply_def
        validateStatus_def)
  have bad: "is_failure circuitOptions failing_reply"
    by (simp add: is_failure_def call_settle_def timed_out_def circuitOptions_def failing_reply_def
        validateStatus_def)
  from half_open_trial [OF h1 h2 h3, where m = 0 and net = ok_net
      and ob = "forwardRequest login_req USERS_SERVICE_URL ''/v1/auth/login''"]
    half_open_trial [OF h1 h2 h3, where m = 0 and net = failing_net
      and ob = "forwardRequest login_req USERS_SERVICE_URL ''/v1/auth/login''"]
    h1 h2 h3 ok bad
  show ?thesis by (simp add: ok_net_def failing_net_def del: fire_all.simps)
qed

section \<open>The opening rule\<close>

lemma closed_fire:
  assumes "state b = CLOSED"
  shows "fst (snd (fire opts m net now b ob))
           = on_outcome opts m now CLOSED (is_failure opts (net ob)) b"
  using assms by (simp add: fire_def Let_def effective_state_def)

lemma failing_reply_fails: "is_failure circuitOptions failing_reply"
  by (simp add: is_failure_def call_settle_def timed_out_def circuitOptions_def failing_reply_def
      validateStatus_def)

lemma threshold_after_failure:
  "threshold_met circuitOptions m (record_outcome True b)
     \<longleftrightarrow> m \<le> Suc (total_count b) \<and> 50 * Suc (total_count b) \<le> 100 * Suc (failures b)"
  by (simp add: threshold_met_def record_outcome_def circuitOptions_def)

lemma closed_opens_iff:
  assumes "state b = CLOSED"
  shows "state (fst (snd (fire circuitOptions m net now b ob))) = OPEN \<longleftrightarrow>
           is_failure circuitOptions (net ob)
           \<and> threshold_met circuitOptions m (record_outcome True b)"
proof (cases "is_failure circuitOptions (net ob)")
  case True
  with assms show ?thesis
    by (simp add: closed_fire on_outcome_def Let_def record_outcome_def)
next
  case False
  with assms show ?thesis
    by (simp add: closed_fire on_outcome_def Let_def record_outcome_def)
qed

text \<open>
  C3, as the code has it. The counters of a breaker are those of its rolling sample of
  recent calls when a call arrives; whatever they are, a CLOSED breaker opens on the call
  exactly when the call is a failure, the calls of the sample, this one included, have
  reached the minimum sample size in force, and at least 50% of them failed. The source
  configures no minimum sample size: after a single failure on a fresh breaker the
  breaker is OPEN exactly when the size in force is at most 1, so with none in force it
  opens.
\<close>

theorem opening_rule:
  assumes "state b = CLOSED"
  shows "(state (fst (snd (fire circuitOptions m net now b ob))) = OPEN \<longleftrightarrow>
            is_failure circuitOptions (net ob) \<and> m \<le> Suc (total_count b)
            \<and> 50 * Suc (total_count b) \<le> 100 * Suc (failures b))
       \<and> (is_failure circuitOptions (net ob) \<longrightarrow>
            (state (fst (snd (fire circuitOptions m net now createCircuitBreaker ob))) = OPEN
               \<longleftrightarrow> m \<le> 1))"
proof -
  have c: "state createCircuitBreaker = CLOSED"
    by (simp add: createCircuitBreaker_def)
  have t: "threshold_met circuitOptions m (record_outcome True createCircuitBreaker) \<longleftrightarrow> m \<le> 1"
    by (simp add: threshold_after_failure createCircuitBreaker_def)
  from closed_opens_iff [OF assms, of m net now ob] closed_opens_iff [OF c, of m net now ob] t
  show ?thesis
    by (simp only: threshold_after_failure) blast
qed

theorem opening_rule_witness:
  "state createCircuitBreaker = CLOSED
   \<and> is_failure circuitOptions (failing_net (forwardRequest login_req USERS_SERVICE_URL ''/v1/auth/login''))
   \<and> state (fst (snd (fire circuitOptions 0 failing_net 100 createCircuitBreaker
        (forwardRequest login_req USERS_SERVICE_URL ''/v1/auth/login'')))) = OPEN
   \<and> state (fst (snd (fire circuitOptions 4 failing_net 100 createCircuitBreaker
        (forwardRequest login_req USERS_SERVICE_URL ''/v1/auth/login'')))) \<noteq> OPEN"
proof -
  have c: "state createCircuitBreaker = CLOSED"
    by (simp add: createCircuitBreaker_def)
  have f: "is_failure circuitOptions
             (failing_net (forwardRequest login_req USERS_SERVICE_URL ''/v1/auth/login''))"
    by (simp add: failing_net_def failing_reply_fails)
  from opening_rule [OF c, where m = 0 and net = failing_net and now = 100
      and ob = "forwardRequest login_req USERS_SERVICE_URL ''/v1/auth/login''"] f
  have o: "state (fst (snd (fire circuitOptions 0 failing_net 100 createCircuitBreaker
        (forwardRequest login_req USERS_SERVICE_URL ''/v1/auth/login'')))) = OPEN"
    by (simp add: createCircuitBreaker_def)
  from opening_rule [OF c, where m = 4 and net = failing_net and now = 100
      and ob = "forwardRequest login_req USERS_SERVICE_URL ''/v1/auth/login''"] f
  have n: "state (fst (snd (fire circuitOptions 4 failing_net 100 createCircuitBreaker
        (forwardRequest login_req USERS_SERVICE_URL ''/v1/auth/login'')))) \<noteq> OPEN"
    by (simp add: createCircuitBreaker_def)
  from c f o n show ?thesis by simp
qed

text \<open>
  C3 as stated fails: with the options of the source and no minimum sample size, one
  failed call through a fresh breaker is made and leaves the breaker OPEN; the next
  request is answered 503 without a call.
\<close>

theorem single_failure_opens:
  "state (fst (snd (handleServiceRequest failing_env 100 createCircuitBreaker
                      USERS_SERVICE_URL login_req))) = OPEN
   \<and> snd (snd (handleServiceRequest failing_env 100 createCircuitBreaker
                  USERS_SERVICE_URL login_req))
       = [forwardRequest login_req USERS_SERVICE_URL ''/v1/auth/login'']
   \<and> fst (handleServiceRequest failing_env 200
             (fst (snd (handleServiceRequest failing_env 100 createCircuitBreaker
                          USERS_SERVICE_URL login_req)))
             USERS_SERVICE_URL login_req)
       = Json 503 (envelope ''SERVICE_UNAVAILABLE'' ''Service is unavailable'')
   \<and> snd (snd (handleServiceRequest failing_env 200
             (fst (snd (handleServiceRequest failing_env 100 createCircuitBreaker
                          USERS_SERVICE_URL login_req)))
             USERS_SERVICE_URL login_req)) = []"
  by (simp add: handleServiceRequest_def fire_def Let_def effective_state_def
      createCircuitBreaker_def failing_env_def failing_net_def failing_reply_def
      is_failure_def call_settle_def timed_out_def circuitOptions_def validateStatus_def
      on_outcome_def record_outcome_def threshold_met_def respond_def on_rejected_def
      on_resolved_def fallback_value_def thrown_error_def fire_result_def
      response_obj_def js_get_opt_def js_or_def login_req_def unavailable_def)

end
